theory Spec2Isabelle
  imports Main
begin

section \<open>Go values shared by the three programs\<close>

text \<open>
  Go strings are byte sequences, so a Go string is a \<open>string\<close> whose characters are the
  UTF-8 bytes of the source literal; the Chinese literals of the source are written out
  byte by byte.

  A Go \<open>error\<close> is either a message (\<open>errors.New\<close>, \<open>fmt.Errorf\<close> without \<open>%w\<close>, an
  error of the database driver) or a message prefix around another error
  (\<open>fmt.Errorf("...: %w", err)\<close>).
\<close>

datatype error = ErrorString string | WrapError string error

section \<open>The raw SQL program (sqlx): \<open>src/unnamed/part_000\<close>\<close>

record Employee =
  ID :: int
  Name :: string
  Department :: string
  Salary :: int

text \<open>
  The handle \<open>*sqlx.DB\<close>: the rows of table \<open>employees\<close>, in the order in which the
  backend scans them (which SQL leaves open), and the error, if any, with which the
  backend answers a query (a lost connection, a missing table).
\<close>

record sqlx_DB =
  table_employees :: "Employee list"
  query_err :: "error option"

text \<open>\<open>db.Select(&dest, query, args...)\<close>: all rows of the result, or the backend's error.\<close>

definition Select :: "sqlx_DB \<Rightarrow> (Employee list \<Rightarrow> Employee list) \<Rightarrow> error + Employee list" where
  "Select db query = (case query_err db of Some e \<Rightarrow> Inl e | None \<Rightarrow> Inr (query (table_employees db)))"

text \<open>\<open>sql.ErrNoRows\<close>, and \<open>db.Get(&dest, query)\<close>: the first row of the result,
  \<open>sql.ErrNoRows\<close> when the result is empty.\<close>

definition ErrNoRows :: error where
  "ErrNoRows = ErrorString ''sql: no rows in result set''"

definition Get :: "sqlx_DB \<Rightarrow> (Employee list \<Rightarrow> Employee list) \<Rightarrow> error + Employee" where
  "Get db query =
     (case query_err db of
        Some e \<Rightarrow> Inl e
      | None \<Rightarrow> (case query (table_employees db) of [] \<Rightarrow> Inl ErrNoRows | e # _ \<Rightarrow> Inr e))"

text \<open>\<open>SELECT id, name, department, salary FROM employees WHERE department = ?\<close>\<close>

definition WHERE_department :: "string \<Rightarrow> Employee list \<Rightarrow> Employee list" where
  "WHERE_department department rows = filter (\<lambda>e. Department e = department) rows"

text \<open>The two messages of \<open>getEmployeesByDepartment\<close>:
  \<open>"\<dots>: %w"\<close> (query failed) and \<open>"\<dots> '%s' \<dots>"\<close> (the department has no employee).\<close>

definition msg_query_department_failed :: string where
  "msg_query_department_failed =
     [CHR 0xE6, CHR 0x9F, CHR 0xA5, CHR 0xE8, CHR 0xAF, CHR 0xA2, CHR 0xE9, CHR 0x83, CHR 0xA8,
      CHR 0xE9, CHR 0x97, CHR 0xA8, CHR 0xE5, CHR 0x91, CHR 0x98, CHR 0xE5, CHR 0xB7, CHR 0xA5,
      CHR 0xE5, CHR 0xA4, CHR 0xB1, CHR 0xE8, CHR 0xB4, CHR 0xA5] @ '': ''"

definition msg_department_empty :: "string \<Rightarrow> string" where
  "msg_department_empty department =
     [CHR 0xE9, CHR 0x83, CHR 0xA8, CHR 0xE9, CHR 0x97, CHR 0xA8] @ '' '' @ [CHR 0x27]
     @ department
     @ [CHR 0x27] @ '' '' @ [CHR 0xE6, CHR 0xB2, CHR 0xA1, CHR 0xE6, CHR 0x9C, CHR 0x89,
        CHR 0xE5, CHR 0x91, CHR 0x98, CHR 0xE5, CHR 0xB7, CHR 0xA5]"

definition getEmployeesByDepartment :: "sqlx_DB \<Rightarrow> string \<Rightarrow> error + Employee list" where
  "getEmployeesByDepartment db department =
     (case Select db (WHERE_department department) of
        Inl err \<Rightarrow> Inl (WrapError msg_query_department_failed err)
      | Inr employees \<Rightarrow>
          if length employees = 0 then Inl (ErrorString (msg_department_empty department))
          else Inr employees)"

text \<open>
  \<open>SELECT \<dots> FROM employees ORDER BY salary DESC LIMIT 1\<close>. The sort is stable on the scan
  order, so which of several rows with the same salary comes first is decided by the
  order of \<open>table_employees db\<close>, that is, by the backend.
\<close>

definition ORDER_BY_salary_DESC_LIMIT_1 :: "Employee list \<Rightarrow> Employee list" where
  "ORDER_BY_salary_DESC_LIMIT_1 rows = take 1 (sort_key (\<lambda>e. - Salary e) rows)"

definition msg_query_highest_failed :: string where
  "msg_query_highest_failed =
     [CHR 0xE6, CHR 0x9F, CHR 0xA5, CHR 0xE8, CHR 0xAF, CHR 0xA2, CHR 0xE6, CHR 0x9C, CHR 0x80,
      CHR 0xE9, CHR 0xAB, CHR 0x98, CHR 0xE8, CHR 0x96, CHR 0xAA, CHR 0xE8, CHR 0xB5, CHR 0x84,
      CHR 0xE5, CHR 0x91, CHR 0x98, CHR 0xE5, CHR 0xB7, CHR 0xA5, CHR 0xE5, CHR 0xA4, CHR 0xB1,
      CHR 0xE8, CHR 0xB4, CHR 0xA5] @ '': ''"

definition getHighestPaidEmployee :: "sqlx_DB \<Rightarrow> error + Employee" where
  "getHighestPaidEmployee db =
     (case Get db ORDER_BY_salary_DESC_LIMIT_1 of
        Inl err \<Rightarrow> Inl (WrapError msg_query_highest_failed err)
      | Inr employee \<Rightarrow> Inr employee)"

text \<open>
  \<open>SELECT MAX(salary) FROM employees\<close> is NULL on an empty table, and
  \<open>WHERE salary = (SELECT MAX(salary) FROM employees)\<close> keeps the rows whose salary is
  that maximum (no row when it is NULL).
\<close>

fun MAX_salary :: "Employee list \<Rightarrow> int option" where
  "MAX_salary [] = None"
| "MAX_salary (e # es) =
     (case MAX_salary es of None \<Rightarrow> Some (Salary e) | Some m \<Rightarrow> Some (max (Salary e) m))"

definition WHERE_salary_is_MAX :: "Employee list \<Rightarrow> Employee list" where
  "WHERE_salary_is_MAX rows = filter (\<lambda>e. Some (Salary e) = MAX_salary rows) rows"

definition msg_query_all_highest_failed :: string where
  "msg_query_all_highest_failed =
     [CHR 0xE6, CHR 0x9F, CHR 0xA5, CHR 0xE8, CHR 0xAF, CHR 0xA2, CHR 0xE6, CHR 0x89, CHR 0x80,
      CHR 0xE6, CHR 0x9C, CHR 0x89, CHR 0xE6, CHR 0x9C, CHR 0x80, CHR 0xE9, CHR 0xAB, CHR 0x98,
      CHR 0xE8, CHR 0x96, CHR 0xAA, CHR 0xE8, CHR 0xB5, CHR 0x84, CHR 0xE5, CHR 0x91, CHR 0x98,
      CHR 0xE5, CHR 0xB7, CHR 0xA5, CHR 0xE5, CHR 0xA4, CHR 0xB1, CHR 0xE8, CHR 0xB4, CHR 0xA5]
     @ '': ''"

definition getAllHighestPaidEmployees :: "sqlx_DB \<Rightarrow> error + Employee list" where
  "getAllHighestPaidEmployees db =
     (case Select db WHERE_salary_is_MAX of
        Inl err \<Rightarrow> Inl (WrapError msg_query_all_highest_failed err)
      | Inr employees \<Rightarrow> Inr employees)"

text \<open>A small table: two employees of one department share the highest salary.\<close>

definition alice :: Employee where
  "alice = \<lparr>ID = 1, Name = ''Alice'', Department = ''Tech'', Salary = 9000\<rparr>"

definition bob :: Employee where
  "bob = \<lparr>ID = 2, Name = ''Bob'', Department = ''Sales'', Salary = 7000\<rparr>"

definition carol :: Employee where
  "carol = \<lparr>ID = 3, Name = ''Carol'', Department = ''Tech'', Salary = 9000\<rparr>"

definition company :: sqlx_DB where
  "company = \<lparr>table_employees = [alice, bob, carol], query_err = None\<rparr>"

section \<open>Connection configuration: \<open>initDB\<close> of \<open>src/sql/gorm.go\<close> and of \<open>src/unnamed/part_000\<close>\<close>

text \<open>
  The process environment maps names to values; \<open>os.Getenv\<close> returns the empty string
  for a variable that is not set.
\<close>

type_synonym environ = "string \<rightharpoonup> string"

definition Getenv :: "environ \<Rightarrow> string \<Rightarrow> string" where
  "Getenv env key = (case env key of None \<Rightarrow> [] | Some v \<Rightarrow> v)"

text \<open>The five local variables of \<open>initDB\<close> once the defaults are set (before the DSN
  is built).\<close>

record dsn_params =
  cfg_user :: string
  cfg_pass :: string
  cfg_host :: string
  cfg_port :: string
  cfg_name :: string

definition gorm_initDB_params :: "environ \<Rightarrow> dsn_params" where
  "gorm_initDB_params env =
     (let dbUser = Getenv env ''DB_USER'';
          dbPass = Getenv env ''DB_PASS'';
          dbHost = Getenv env ''DB_HOST'';
          dbPort = Getenv env ''DB_PORT'';
          dbName = Getenv env ''DB_NAME'';
          (dbUser, dbPass) =
            (if dbUser = [] \<or> dbPass = [] then (''root'', ''password'') else (dbUser, dbPass));
          dbHost = (if dbHost = [] then ''localhost'' else dbHost);
          dbPort = (if dbPort = [] then ''3306'' else dbPort);
          dbName = (if dbName = [] then ''blog_db'' else dbName)
      in \<lparr>cfg_user = dbUser, cfg_pass = dbPass, cfg_host = dbHost, cfg_port = dbPort,
          cfg_name = dbName\<rparr>)"

definition sqlx_initDB_params :: "environ \<Rightarrow> dsn_params" where
  "sqlx_initDB_params env =
     (let dbUser = Getenv env ''DB_USER'';
          dbPass = Getenv env ''DB_PASS'';
          dbHost = Getenv env ''DB_HOST'';
          dbPort = Getenv env ''DB_PORT'';
          dbName = Getenv env ''DB_NAME'';
          (dbUser, dbPass) =
            (if dbUser = [] \<or> dbPass = [] then (''root'', ''password'') else (dbUser, dbPass));
          dbHost = (if dbHost = [] then ''localhost'' else dbHost);
          dbPort = (if dbPort = [] then ''3306'' else dbPort);
          dbName = (if dbName = [] then ''company_db'' else dbName)
      in \<lparr>cfg_user = dbUser, cfg_pass = dbPass, cfg_host = dbHost, cfg_port = dbPort,
          cfg_name = dbName\<rparr>)"

text \<open>\<open>fmt.Sprintf("%s:%s@tcp(%s:%s)/%s?\<dots>", dbUser, dbPass, dbHost, dbPort, dbName)\<close>\<close>

definition gorm_initDB_dsn :: "environ \<Rightarrow> string" where
  "gorm_initDB_dsn env =
     (let c = gorm_initDB_params env
      in cfg_user c @ '':'' @ cfg_pass c @ ''@tcp('' @ cfg_host c @ '':'' @ cfg_port c @ '')/''
         @ cfg_name c @ ''?charset=utf8mb4&parseTime=True&loc=Local'')"

definition sqlx_initDB_dsn :: "environ \<Rightarrow> string" where
  "sqlx_initDB_dsn env =
     (let c = sqlx_initDB_params env
      in cfg_user c @ '':'' @ cfg_pass c @ ''@tcp('' @ cfg_host c @ '':'' @ cfg_port c @ '')/''
         @ cfg_name c @ ''?parseTime=true'')"

text \<open>
  The rest of \<open>initDB\<close>: the connection is opened with the DSN (\<open>gorm.Open\<close>, then
  \<open>db.DB()\<close>; \<open>sqlx.Connect\<close>), both given here as parameters, and the pool is sized.
  \<open>ConnMaxLifetime\<close> is a \<open>time.Duration\<close>, a number of nanoseconds.
\<close>

record pool =
  MaxOpenConns :: int
  MaxIdleConns :: int
  ConnMaxLifetime :: int

definition msg_connect_failed :: string where
  "msg_connect_failed =
     [CHR 0xE6, CHR 0x95, CHR 0xB0, CHR 0xE6, CHR 0x8D, CHR 0xAE, CHR 0xE5, CHR 0xBA, CHR 0x93,
      CHR 0xE8, CHR 0xBF, CHR 0x9E, CHR 0xE6, CHR 0x8E, CHR 0xA5, CHR 0xE5, CHR 0xA4, CHR 0xB1,
      CHR 0xE8, CHR 0xB4, CHR 0xA5] @ '': ''"

definition msg_get_sqldb_failed :: string where
  "msg_get_sqldb_failed =
     [CHR 0xE8, CHR 0x8E, CHR 0xB7, CHR 0xE5, CHR 0x8F, CHR 0x96, CHR 0xE6, CHR 0x95, CHR 0xB0,
      CHR 0xE6, CHR 0x8D, CHR 0xAE, CHR 0xE5, CHR 0xBA, CHR 0x93, CHR 0xE8, CHR 0xBF, CHR 0x9E,
      CHR 0xE6, CHR 0x8E, CHR 0xA5, CHR 0xE5, CHR 0xA4, CHR 0xB1, CHR 0xE8, CHR 0xB4, CHR 0xA5]
     @ '': ''"

definition gorm_initDB ::
  "environ \<Rightarrow> (string \<Rightarrow> error + 'db) \<Rightarrow> ('db \<Rightarrow> error + 'sqldb) \<Rightarrow> error + 'db \<times> pool" where
  "gorm_initDB env gorm_Open get_DB =
     (case gorm_Open (gorm_initDB_dsn env) of
        Inl err \<Rightarrow> Inl (WrapError msg_connect_failed err)
      | Inr db \<Rightarrow>
          (case get_DB db of
             Inl err \<Rightarrow> Inl (WrapError msg_get_sqldb_failed err)
           | Inr sqlDB \<Rightarrow>
               Inr (db, \<lparr>MaxOpenConns = 100, MaxIdleConns = 10,
                         ConnMaxLifetime = 3600 * 1000000000\<rparr>)))"

definition sqlx_initDB ::
  "environ \<Rightarrow> (string \<Rightarrow> error + 'db) \<Rightarrow> error + 'db \<times> pool" where
  "sqlx_initDB env sqlx_Connect =
     (case sqlx_Connect (sqlx_initDB_dsn env) of
        Inl err \<Rightarrow> Inl (WrapError msg_connect_failed err)
      | Inr db \<Rightarrow>
          Inr (db, \<lparr>MaxOpenConns = 25, MaxIdleConns = 10,
                    ConnMaxLifetime = 5 * 60 * 1000000000\<rparr>))"

text \<open>Two environments: only \<open>DB_USER\<close> set, and everything set.\<close>

definition env_user_only :: environ where
  "env_user_only = [''DB_USER'' \<mapsto> ''alice'']"

definition env_all_set :: environ where
  "env_all_set = [''DB_USER'' \<mapsto> ''alice'', ''DB_PASS'' \<mapsto> ''s3cret'', ''DB_HOST'' \<mapsto> ''db.local'',
                  ''DB_PORT'' \<mapsto> ''3307'', ''DB_NAME'' \<mapsto> ''prod'']"

section \<open>The ORM program (GORM): \<open>src/sql/gorm.go\<close>\<close>

subsection \<open>Models\<close>

text \<open>
  The three models, with the columns the program reads and writes. The timestamps
  (\<open>CreatedAt\<close>, \<open>UpdatedAt\<close>) and the association fields (\<open>Posts\<close>, \<open>User\<close>, \<open>Comments\<close>,
  \<open>Post\<close>), which every call of the program leaves at their zero values, are left out.
  \<open>ID\<close>, \<open>UserID\<close> and \<open>PostID\<close> are \<open>uint\<close>: the program only compares them.
  \<open>ArticleCount\<close> is a Go \<open>int\<close> stored in a \<open>BIGINT\<close> column.
\<close>

record User =
  ID :: nat
  Name :: string
  Email :: string
  Password :: string
  ArticleCount :: int

record Post =
  ID :: nat
  Title :: string
  Content :: string
  CommentStatus :: string
  UserID :: nat

record Comment =
  ID :: nat
  Content :: string
  PostID :: nat
  UserID :: nat

text \<open>The two values of \<open>comment_status\<close>: the literals \<open>"has comments"\<close> and
  \<open>"no comments"\<close> of the source (in Chinese there), the second one also the column's
  default.\<close>

definition HasComments :: string where
  "HasComments = [CHR 0xE6, CHR 0x9C, CHR 0x89, CHR 0xE8, CHR 0xAF, CHR 0x84, CHR 0xE8, CHR 0xAE, CHR 0xBA]"

definition NoComments :: string where
  "NoComments = [CHR 0xE6, CHR 0x97, CHR 0xA0, CHR 0xE8, CHR 0xAF, CHR 0x84, CHR 0xE8, CHR 0xAE, CHR 0xBA]"

subsection \<open>The database handle and its statements\<close>

text \<open>
  The handle \<open>*gorm.DB\<close> (a connection, or a transaction on it): the rows of the three
  tables, and for each kind of statement the error, if any, with which the backend
  answers it whatever the data (a lost connection, a lock timeout). The constraints of
  the schema that \<open>AutoMigrate\<close> creates from the models are part of the statements
  below: the primary keys, the unique indexes on \<open>name\<close> and \<open>email\<close>, and the three
  foreign keys of the declared relations (\<open>posts.user_id\<close> to \<open>users.id\<close>,
  \<open>comments.post_id\<close> to \<open>posts.id\<close>, \<open>comments.user_id\<close> to \<open>users.id\<close>), which
  the backend enforces on insert and, having no \<open>ON DELETE\<close> action, on delete.
\<close>

datatype stmt =
  INSERT_users | INSERT_posts | INSERT_comments | UPDATE_users | UPDATE_posts | COUNT_comments
  | DELETE_comments | DELETE_posts | DELETE_users

record gorm_DB =
  table_users :: "User list"
  table_posts :: "Post list"
  table_comments :: "Comment list"
  backend_err :: "stmt \<Rightarrow> error option"

text \<open>Errors of the backend and of GORM that depend on the data.\<close>

definition ErrOutOfRange :: error where
  "ErrOutOfRange = ErrorString ''Error 1690 (22003): BIGINT value is out of range''"

definition ErrDuplicateEntry :: error where
  "ErrDuplicateEntry = ErrorString ''Error 1062 (23000): Duplicate entry for key PRIMARY''"

definition ErrNoReferencedRow :: error where
  "ErrNoReferencedRow =
     ErrorString ''Error 1452 (23000): Cannot add or update a child row: a foreign key constraint fails''"

definition ErrRowIsReferenced :: error where
  "ErrRowIsReferenced =
     ErrorString ''Error 1451 (23000): Cannot delete or update a parent row: a foreign key constraint fails''"

definition ErrMissingWhereClause :: error where
  "ErrMissingWhereClause = ErrorString ''WHERE conditions required''"

definition MaxInt64 :: int where
  "MaxInt64 = 2 ^ 63 - 1"

text \<open>
  \<open>tx.Model(&User{}).Where("id = ?", id).Update("article_count", gorm.Expr("article_count + ?", 1))\<close>:
  \<open>UPDATE users SET article_count = article_count + 1 WHERE id = ?\<close>. The sum is computed
  by the backend, which refuses a value beyond the column's range. A statement that
  matches no row is not an error.
\<close>

definition UPDATE_users_article_count :: "nat \<Rightarrow> gorm_DB \<Rightarrow> error + gorm_DB" where
  "UPDATE_users_article_count uid tx =
     (case backend_err tx UPDATE_users of
        Some e \<Rightarrow> Inl e
      | None \<Rightarrow>
          if \<exists>u \<in> set (table_users tx). User.ID u = uid \<and> ArticleCount u + 1 > MaxInt64
          then Inl ErrOutOfRange
          else Inr (tx\<lparr>table_users :=
                      map (\<lambda>u. if User.ID u = uid then u\<lparr>ArticleCount := ArticleCount u + 1\<rparr> else u)
                        (table_users tx)\<rparr>))"

text \<open>\<open>tx.Model(&Comment{}).Where("post_id = ?", id).Count(&n)\<close>:
  \<open>SELECT count(*) FROM comments WHERE post_id = ?\<close>\<close>

definition SELECT_count_comments :: "nat \<Rightarrow> gorm_DB \<Rightarrow> error + int" where
  "SELECT_count_comments pid tx =
     (case backend_err tx COUNT_comments of
        Some e \<Rightarrow> Inl e
      | None \<Rightarrow> Inr (int (length (filter (\<lambda>c. PostID c = pid) (table_comments tx)))))"

text \<open>\<open>tx.Model(&Post{}).Where("id = ?", id).Update("comment_status", s)\<close>:
  \<open>UPDATE posts SET comment_status = ? WHERE id = ?\<close>\<close>

definition UPDATE_posts_comment_status :: "nat \<Rightarrow> string \<Rightarrow> gorm_DB \<Rightarrow> error + gorm_DB" where
  "UPDATE_posts_comment_status pid s tx =
     (case backend_err tx UPDATE_posts of
        Some e \<Rightarrow> Inl e
      | None \<Rightarrow>
          Inr (tx\<lparr>table_posts :=
                 map (\<lambda>p. if Post.ID p = pid then p\<lparr>CommentStatus := s\<rparr> else p)
                   (table_posts tx)\<rparr>))"

text \<open>
  \<open>INSERT INTO users\<close>, \<open>INSERT INTO posts\<close> and \<open>INSERT INTO comments\<close>. A zero \<open>ID\<close> is
  replaced by the next value of the auto-increment column, a given \<open>ID\<close> must not be
  taken (primary key), nor the \<open>name\<close> or the \<open>email\<close> of a user (unique indexes); the
  user of a post, and the post and the user of a comment, must exist (foreign keys); an
  empty \<open>CommentStatus\<close> is stored as the column's default. The struct comes back with
  its \<open>ID\<close> filled in.
\<close>

definition next_id :: "nat list \<Rightarrow> nat" where
  "next_id ids = Suc (fold max ids 0)"

definition INSERT_INTO_users :: "User \<Rightarrow> gorm_DB \<Rightarrow> error + User \<times> gorm_DB" where
  "INSERT_INTO_users u tx =
     (case backend_err tx INSERT_users of
        Some e \<Rightarrow> Inl e
      | None \<Rightarrow>
          (let new_id = (if User.ID u = 0 then next_id (map User.ID (table_users tx)) else User.ID u);
               row = u\<lparr>User.ID := new_id\<rparr>
           in if new_id \<in> set (map User.ID (table_users tx))
                 \<or> Name u \<in> set (map Name (table_users tx))
                 \<or> Email u \<in> set (map Email (table_users tx))
              then Inl ErrDuplicateEntry
              else Inr (row, tx\<lparr>table_users := table_users tx @ [row]\<rparr>)))"

definition INSERT_INTO_posts :: "Post \<Rightarrow> gorm_DB \<Rightarrow> error + Post \<times> gorm_DB" where
  "INSERT_INTO_posts p tx =
     (case backend_err tx INSERT_posts of
        Some e \<Rightarrow> Inl e
      | None \<Rightarrow>
          (let new_id = (if Post.ID p = 0 then next_id (map Post.ID (table_posts tx)) else Post.ID p);
               row = p\<lparr>Post.ID := new_id,
                       CommentStatus := (if CommentStatus p = [] then NoComments else CommentStatus p)\<rparr>
           in if new_id \<in> set (map Post.ID (table_posts tx)) then Inl ErrDuplicateEntry
              else if Post.UserID p \<notin> set (map User.ID (table_users tx)) then Inl ErrNoReferencedRow
              else Inr (p\<lparr>Post.ID := new_id\<rparr>, tx\<lparr>table_posts := table_posts tx @ [row]\<rparr>)))"

definition INSERT_INTO_comments :: "Comment \<Rightarrow> gorm_DB \<Rightarrow> error + Comment \<times> gorm_DB" where
  "INSERT_INTO_comments c tx =
     (case backend_err tx INSERT_comments of
        Some e \<Rightarrow> Inl e
      | None \<Rightarrow>
          (let new_id = (if Comment.ID c = 0 then next_id (map Comment.ID (table_comments tx))
                         else Comment.ID c);
               row = c\<lparr>Comment.ID := new_id\<rparr>
           in if new_id \<in> set (map Comment.ID (table_comments tx)) then Inl ErrDuplicateEntry
              else if PostID c \<notin> set (map Post.ID (table_posts tx))
                      \<or> Comment.UserID c \<notin> set (map User.ID (table_users tx))
              then Inl ErrNoReferencedRow
              else Inr (row, tx\<lparr>table_comments := table_comments tx @ [row]\<rparr>)))"

text \<open>
  \<open>DELETE FROM t WHERE id = ?\<close> for the three tables. A post that a comment refers to,
  and a user that a post or a comment refers to, cannot be deleted (foreign keys).
\<close>

definition DELETE_FROM_comments :: "nat \<Rightarrow> gorm_DB \<Rightarrow> error + gorm_DB" where
  "DELETE_FROM_comments cid tx =
     (case backend_err tx DELETE_comments of
        Some e \<Rightarrow> Inl e
      | None \<Rightarrow> Inr (tx\<lparr>table_comments := filter (\<lambda>c. Comment.ID c \<noteq> cid) (table_comments tx)\<rparr>))"

definition DELETE_FROM_posts :: "nat \<Rightarrow> gorm_DB \<Rightarrow> error + gorm_DB" where
  "DELETE_FROM_posts pid tx =
     (case backend_err tx DELETE_posts of
        Some e \<Rightarrow> Inl e
      | None \<Rightarrow>
          if pid \<in> set (map Post.ID (table_posts tx)) \<and> pid \<in> set (map PostID (table_comments tx))
          then Inl ErrRowIsReferenced
          else Inr (tx\<lparr>table_posts := filter (\<lambda>p. Post.ID p \<noteq> pid) (table_posts tx)\<rparr>))"

definition DELETE_FROM_users :: "nat \<Rightarrow> gorm_DB \<Rightarrow> error + gorm_DB" where
  "DELETE_FROM_users uid tx =
     (case backend_err tx DELETE_users of
        Some e \<Rightarrow> Inl e
      | None \<Rightarrow>
          if uid \<in> set (map User.ID (table_users tx))
             \<and> (uid \<in> set (map Post.UserID (table_posts tx))
                 \<or> uid \<in> set (map Comment.UserID (table_comments tx)))
          then Inl ErrRowIsReferenced
          else Inr (tx\<lparr>table_users := filter (\<lambda>u. User.ID u \<noteq> uid) (table_users tx)\<rparr>))"

subsection \<open>The hooks\<close>

text \<open>
  \<open>func (p *Post) AfterCreate(tx *gorm.DB) error\<close>: the error of the update is returned
  as it is; otherwise a line is printed (not modelled) and the hook returns \<open>nil\<close>.
\<close>

definition AfterCreate :: "Post \<Rightarrow> gorm_DB \<Rightarrow> error + gorm_DB" where
  "AfterCreate p tx =
     (case UPDATE_users_article_count (Post.UserID p) tx of
        Inl err \<Rightarrow> Inl err
      | Inr tx' \<Rightarrow> Inr tx')"

text \<open>\<open>func (c *Comment) AfterDelete(tx *gorm.DB) error\<close>\<close>

definition AfterDelete :: "Comment \<Rightarrow> gorm_DB \<Rightarrow> error + gorm_DB" where
  "AfterDelete c tx =
     (case SELECT_count_comments (PostID c) tx of
        Inl err \<Rightarrow> Inl err
      | Inr commentCount \<Rightarrow>
          (let newStatus = (if commentCount = 0 then NoComments else HasComments)
           in case UPDATE_posts_comment_status (PostID c) newStatus tx of
                Inl err \<Rightarrow> Inl err
              | Inr tx' \<Rightarrow> Inr tx'))"

subsection \<open>\<open>db.Create\<close> and \<open>db.Delete\<close>\<close>

text \<open>
  GORM runs a create or a delete inside a transaction of its own (the program does not
  set \<open>SkipDefaultTransaction\<close>): the statement, then the model's hook if it has one,
  called with the transaction; an error of either rolls the transaction back and is the
  call's \<open>.Error\<close>, otherwise the transaction is committed.
\<close>

definition Transaction :: "(gorm_DB \<Rightarrow> error + gorm_DB) \<Rightarrow> gorm_DB \<Rightarrow> error option \<times> gorm_DB" where
  "Transaction body db =
     (case body db of
        Inl err \<Rightarrow> (Some err, db)
      | Inr tx \<Rightarrow> (None, tx))"

text \<open>\<open>db.Create(&post)\<close>: \<open>Post\<close> has the hook \<open>AfterCreate\<close>.\<close>

definition Create_Post :: "gorm_DB \<Rightarrow> Post \<Rightarrow> error option \<times> gorm_DB" where
  "Create_Post db p =
     Transaction
       (\<lambda>tx. case INSERT_INTO_posts p tx of
                Inl err \<Rightarrow> Inl err
              | Inr (p', tx') \<Rightarrow> AfterCreate p' tx')
       db"

text \<open>\<open>db.Create(&user)\<close> and \<open>db.Create(&comment)\<close>: neither \<open>User\<close> nor \<open>Comment\<close>
  has a hook on creation.\<close>

definition Create_User :: "gorm_DB \<Rightarrow> User \<Rightarrow> error option \<times> gorm_DB" where
  "Create_User db u =
     Transaction
       (\<lambda>tx. case INSERT_INTO_users u tx of
                Inl err \<Rightarrow> Inl err
              | Inr (u', tx') \<Rightarrow> Inr tx')
       db"

definition Create_Comment :: "gorm_DB \<Rightarrow> Comment \<Rightarrow> error option \<times> gorm_DB" where
  "Create_Comment db c =
     Transaction
       (\<lambda>tx. case INSERT_INTO_comments c tx of
                Inl err \<Rightarrow> Inl err
              | Inr (c', tx') \<Rightarrow> Inr tx')
       db"

text \<open>
  \<open>db.Delete(&comment)\<close>: the row is found by the primary key of the struct (GORM refuses
  a delete without condition, which a zero \<open>ID\<close> amounts to); \<open>Comment\<close> has the hook
  \<open>AfterDelete\<close>, which is called on the struct that was handed to \<open>Delete\<close>.
\<close>

definition Delete_Comment :: "gorm_DB \<Rightarrow> Comment \<Rightarrow> error option \<times> gorm_DB" where
  "Delete_Comment db c =
     Transaction
       (\<lambda>tx. if Comment.ID c = 0 then Inl ErrMissingWhereClause
              else case DELETE_FROM_comments (Comment.ID c) tx of
                     Inl err \<Rightarrow> Inl err
                   | Inr tx' \<Rightarrow> AfterDelete c tx')
       db"

text \<open>\<open>db.Delete(&post)\<close> and \<open>db.Delete(&user)\<close>: neither model has a hook on deletion.\<close>

definition Delete_Post :: "gorm_DB \<Rightarrow> Post \<Rightarrow> error option \<times> gorm_DB" where
  "Delete_Post db p =
     Transaction
       (\<lambda>tx. if Post.ID p = 0 then Inl ErrMissingWhereClause
              else DELETE_FROM_posts (Post.ID p) tx)
       db"

definition Delete_User :: "gorm_DB \<Rightarrow> User \<Rightarrow> error option \<times> gorm_DB" where
  "Delete_User db u =
     Transaction
       (\<lambda>tx. if User.ID u = 0 then Inl ErrMissingWhereClause
              else DELETE_FROM_users (User.ID u) tx)
       db"

subsection \<open>Sequences of mutations and the derived fields\<close>

text \<open>
  A caller such as \<open>main\<close> issues one call after the other and goes on after a call that
  failed (it logs the error); the database after a list of calls:
\<close>

datatype mutation =
  CreateUser User | CreatePost Post | CreateComment Comment | DeleteComment Comment
  | DeletePost Post | DeleteUser User

fun apply_mutation :: "gorm_DB \<Rightarrow> mutation \<Rightarrow> gorm_DB" where
  "apply_mutation db (CreateUser u) = snd (Create_User db u)"
| "apply_mutation db (CreatePost p) = snd (Create_Post db p)"
| "apply_mutation db (CreateComment c) = snd (Create_Comment db c)"
| "apply_mutation db (DeleteComment c) = snd (Delete_Comment db c)"
| "apply_mutation db (DeletePost p) = snd (Delete_Post db p)"
| "apply_mutation db (DeleteUser u) = snd (Delete_User db u)"

definition run :: "gorm_DB \<Rightarrow> mutation list \<Rightarrow> gorm_DB" where
  "run db ms = foldl apply_mutation db ms"

fun is_DeletePost :: "mutation \<Rightarrow> bool" where
  "is_DeletePost (DeletePost p) = True"
| "is_DeletePost m = False"

text \<open>A user creation whose struct carries an \<open>ArticleCount\<close> of the caller's (the
  program's own creations leave the field at zero).\<close>

fun sets_ArticleCount :: "mutation \<Rightarrow> bool" where
  "sets_ArticleCount (CreateUser u) = (ArticleCount u \<noteq> 0)"
| "sets_ArticleCount m = False"

text \<open>The results (error and database) of deleting a list of comments one after the other.\<close>

fun Delete_Comments :: "gorm_DB \<Rightarrow> Comment list \<Rightarrow> (error option \<times> gorm_DB) list" where
  "Delete_Comments db [] = []"
| "Delete_Comments db (c # cs) =
     (let r = Delete_Comment db c in r # Delete_Comments (snd r) cs)"

text \<open>Every creation of a list of posts, issued one after the other, commits.\<close>

fun Create_Posts_committed :: "gorm_DB \<Rightarrow> Post list \<Rightarrow> bool" where
  "Create_Posts_committed db [] = True"
| "Create_Posts_committed db (p # ps) =
     (fst (Create_Post db p) = None \<and> Create_Posts_committed (snd (Create_Post db p)) ps)"

text \<open>A from-scratch recount of a user's posts and of a post's comments, and the two
  derived fields agreeing with them.\<close>

definition count_posts :: "gorm_DB \<Rightarrow> nat \<Rightarrow> int" where
  "count_posts db uid = int (length (filter (\<lambda>p. Post.UserID p = uid) (table_posts db)))"

definition count_comments :: "gorm_DB \<Rightarrow> nat \<Rightarrow> int" where
  "count_comments db pid = int (length (filter (\<lambda>c. PostID c = pid) (table_comments db)))"

text \<open>Referential integrity of the posts, which the foreign key maintains: the user of
  every post exists.\<close>

definition posts_have_users :: "gorm_DB \<Rightarrow> bool" where
  "posts_have_users db =
     (\<forall>p \<in> set (table_posts db). Post.UserID p \<in> set (map User.ID (table_users db)))"

definition article_count_ok :: "gorm_DB \<Rightarrow> bool" where
  "article_count_ok db =
     (\<forall>u \<in> set (table_users db). ArticleCount u = count_posts db (User.ID u))"

definition comment_status_ok :: "gorm_DB \<Rightarrow> nat \<Rightarrow> bool" where
  "comment_status_ok db pid =
     (\<forall>p \<in> set (table_posts db). Post.ID p = pid \<longrightarrow>
        CommentStatus p = (if count_comments db pid > 0 then HasComments else NoComments))"

subsection \<open>An example database\<close>

definition healthy :: "stmt \<Rightarrow> error option" where
  "healthy s = None"

definition zhangsan :: User where
  "zhangsan = \<lparr>User.ID = 1, Name = ''zhangsan'', Email = ''zhangsan@example.com'',
               Password = ''pass123'', ArticleCount = 0\<rparr>"

definition lisi :: User where
  "lisi = \<lparr>User.ID = 2, Name = ''lisi'', Email = ''lisi@example.com'',
           Password = ''pass456'', ArticleCount = 0\<rparr>"

definition post_a :: Post where
  "post_a = \<lparr>Post.ID = 0, Title = ''Go'', Content = ''Go basics'', CommentStatus = [], UserID = 1\<rparr>"

definition post_b :: Post where
  "post_b = \<lparr>Post.ID = 0, Title = ''GORM'', Content = ''GORM guide'', CommentStatus = [], UserID = 1\<rparr>"

definition post_orphan :: Post where
  "post_orphan = \<lparr>Post.ID = 0, Title = ''Web'', Content = ''Web apps'', CommentStatus = [], UserID = 7\<rparr>"

definition comment_a :: Comment where
  "comment_a = \<lparr>Comment.ID = 1, Content = ''nice'', PostID = 1, UserID = 2\<rparr>"

definition comment_b :: Comment where
  "comment_b = \<lparr>Comment.ID = 2, Content = ''thanks'', PostID = 1, UserID = 1\<rparr>"

definition blog :: gorm_DB where
  "blog = \<lparr>table_users = [zhangsan, lisi], table_posts = [], table_comments = [],
           backend_err = healthy\<rparr>"

text \<open>The same database after the first post was created, and after two comments on
  that post were created (no hook has touched \<open>comment_status\<close> yet); a comment and a
  user to be created; and a backend on which every update of \<open>users\<close> fails.\<close>

definition new_comment :: Comment where
  "new_comment = \<lparr>Comment.ID = 0, Content = ''nice'', PostID = 1, UserID = 2\<rparr>"

definition blog_posted :: gorm_DB where
  "blog_posted =
     \<lparr>table_users = [zhangsan\<lparr>ArticleCount := 1\<rparr>, lisi],
      table_posts = [post_a\<lparr>Post.ID := 1, CommentStatus := NoComments\<rparr>],
      table_comments = [], backend_err = healthy\<rparr>"

definition blog_commented :: gorm_DB where
  "blog_commented = blog_posted\<lparr>table_comments := [comment_a, comment_b]\<rparr>"

definition wangwu :: User where
  "wangwu = \<lparr>User.ID = 0, Name = ''wangwu'', Email = ''wangwu@example.com'',
             Password = ''pass789'', ArticleCount = 0\<rparr>"

definition users_locked :: "stmt \<Rightarrow> error option" where
  "users_locked s =
     (if s = UPDATE_users then Some (ErrorString ''Error 1205: Lock wait timeout exceeded'')
      else None)"

section \<open>Properties of the raw SQL program\<close>

lemma MAX_salary_Max:
  "rows \<noteq> [] \<Longrightarrow> MAX_salary rows = Some (Max (Salary ` set rows))"
proof (induction rows)
  case Nil
  then show ?case by simp
next
  case (Cons e es)
  show ?case
  proof (cases "es = []")
    case True
    then show ?thesis by simp
  next
    case False
    with Cons.IH have "MAX_salary es = Some (Max (Salary ` set es))" by simp
    moreover have "max (Salary e) (Max (Salary ` set es)) = Max (Salary ` set (e # es))"
      using False by simp
    ultimately show ?thesis by simp
  qed
qed

lemma first_by_salary_desc:
  assumes "rows \<noteq> []"
  shows "\<exists>e rest. sort_key (\<lambda>e. - Salary e) rows = e # rest \<and> e \<in> set rows
           \<and> Salary e = Max (Salary ` set rows)"
proof -
  let ?s = "sort_key (\<lambda>e. - Salary e) rows"
  have "?s \<noteq> []" using assms by (metis length_sort length_0_conv)
  then obtain e rest where s: "?s = e # rest" by (cases ?s) auto
  have mem: "e \<in> set rows"
    using s by (metis list.set_intros(1) set_sort)
  have "sorted (map (\<lambda>e. - Salary e) ?s)" by (rule sorted_sort_key)
  then have "\<forall>x \<in> set rest. - Salary e \<le> - Salary x"
    unfolding s by simp
  moreover have "set rows = insert e (set rest)"
    using s by (metis list.simps(15) set_sort)
  ultimately have "\<forall>x \<in> set rows. Salary x \<le> Salary e" by auto
  then have "Max (Salary ` set rows) = Salary e"
    using mem by (intro Max_eqI) auto
  then show ?thesis using s mem by simp
qed

text \<open>
  Claim C8. For every department value, \<open>getEmployeesByDepartment\<close> returns the list of
  all employees whose department equals that value when at least one matches, and fails
  with an error (the "no employees" error, not an empty list) when no row matches. The
  query itself is assumed to be answered by the backend.
\<close>

theorem getEmployeesByDepartment_rows_or_error:
  assumes "query_err db = None"
  shows "getEmployeesByDepartment db d =
           (if \<exists>e \<in> set (table_employees db). Department e = d
            then Inr (filter (\<lambda>e. Department e = d) (table_employees db))
            else Inl (ErrorString (msg_department_empty d)))
         \<and> getEmployeesByDepartment db d \<noteq> Inr []"
proof -
  let ?rows = "filter (\<lambda>e. Department e = d) (table_employees db)"
  have sel: "Select db (WHERE_department d) = Inr ?rows"
    using assms by (simp add: Select_def WHERE_department_def)
  have empty_iff: "(?rows = []) = (\<not> (\<exists>e \<in> set (table_employees db). Department e = d))"
    by (simp add: filter_empty_conv)
  have "getEmployeesByDepartment db d =
           (if \<exists>e \<in> set (table_employees db). Department e = d
            then Inr ?rows else Inl (ErrorString (msg_department_empty d)))"
    unfolding getEmployeesByDepartment_def sel using empty_iff by simp
  moreover from this have "getEmployeesByDepartment db d \<noteq> Inr []"
    using empty_iff by (simp split: if_splits)
  ultimately show ?thesis by blast
qed

theorem getEmployeesByDepartment_witness:
  "query_err company = None
   \<and> getEmployeesByDepartment company ''Tech'' = Inr [alice, carol]
   \<and> getEmployeesByDepartment company ''Legal'' = Inl (ErrorString (msg_department_empty ''Legal''))"
  using getEmployeesByDepartment_rows_or_error [of company "''Tech''"]
        getEmployeesByDepartment_rows_or_error [of company "''Legal''"]
  by (simp add: company_def alice_def bob_def carol_def)

text \<open>
  Claim C7. On a non-empty \<open>employees\<close> table (and with the backend answering),
  \<open>getHighestPaidEmployee\<close> returns one employee of the table whose salary is the maximum
  salary, and \<open>getAllHighestPaidEmployees\<close> returns exactly the employees whose salary is
  that maximum; so the row of the first is one of the rows of the second, and employees
  that tie for the maximum all appear in the second.
\<close>

theorem highest_paid_one_and_all:
  assumes "query_err db = None" and "table_employees db \<noteq> []"
  shows "\<exists>e. getHighestPaidEmployee db = Inr e
             \<and> e \<in> set (table_employees db)
             \<and> Salary e = Max (Salary ` set (table_employees db))
             \<and> getAllHighestPaidEmployees db =
                 Inr (filter (\<lambda>x. Salary x = Max (Salary ` set (table_employees db)))
                        (table_employees db))
             \<and> e \<in> set (filter (\<lambda>x. Salary x = Max (Salary ` set (table_employees db)))
                        (table_employees db))"
proof -
  let ?rows = "table_employees db"
  obtain e rest where s: "sort_key (\<lambda>e. - Salary e) ?rows = e # rest"
    and mem: "e \<in> set ?rows" and top: "Salary e = Max (Salary ` set ?rows)"
    using first_by_salary_desc [OF assms(2)] by blast
  have one: "getHighestPaidEmployee db = Inr e"
    using assms(1) s
    by (simp add: getHighestPaidEmployee_def Get_def ORDER_BY_salary_DESC_LIMIT_1_def)
  have "WHERE_salary_is_MAX ?rows = filter (\<lambda>x. Salary x = Max (Salary ` set ?rows)) ?rows"
    by (simp add: WHERE_salary_is_MAX_def MAX_salary_Max [OF assms(2)])
  then have all: "getAllHighestPaidEmployees db =
      Inr (filter (\<lambda>x. Salary x = Max (Salary ` set ?rows)) ?rows)"
    using assms(1) by (simp add: getAllHighestPaidEmployees_def Select_def)
  show ?thesis using one mem top all by simp
qed

text \<open>
  In the example table Alice and Carol tie at 9000: the ties-aware query returns both,
  the limit-1 query returns the one the backend scans first.
\<close>

theorem highest_paid_witness:
  "query_err company = None \<and> table_employees company \<noteq> []
   \<and> getHighestPaidEmployee company = Inr alice
   \<and> getAllHighestPaidEmployees company = Inr [alice, carol]
   \<and> getHighestPaidEmployee (company\<lparr>table_employees := [carol, bob, alice]\<rparr>) = Inr carol
   \<and> getAllHighestPaidEmployees (company\<lparr>table_employees := [carol, bob, alice]\<rparr>)
       = Inr [carol, alice]"
proof -
  have a: "getHighestPaidEmployee company = Inr alice"
    by (simp add: getHighestPaidEmployee_def Get_def ORDER_BY_salary_DESC_LIMIT_1_def
        company_def alice_def bob_def carol_def)
  have b: "getHighestPaidEmployee (company\<lparr>table_employees := [carol, bob, alice]\<rparr>) = Inr carol"
    by (simp add: getHighestPaidEmployee_def Get_def ORDER_BY_salary_DESC_LIMIT_1_def
        company_def alice_def bob_def carol_def)
  have m: "Max (Salary ` set [alice, bob, carol]) = 9000"
       "Max (Salary ` set [carol, bob, alice]) = 9000"
    by (simp_all add: alice_def bob_def carol_def)
  show ?thesis
    using highest_paid_one_and_all [of company]
          highest_paid_one_and_all [of "company\<lparr>table_employees := [carol, bob, alice]\<rparr>"]
          a b m
    by (simp add: company_def alice_def bob_def carol_def)
qed

section \<open>Properties of the connection configuration\<close>

text \<open>
  Claim C9 (as amended). In both programs the user and the password take their
  placeholder defaults (\<open>root\<close>, \<open>password\<close>) together, whenever \<open>DB_USER\<close> or \<open>DB_PASS\<close>
  is empty, and are used as given only when both are set; host, port and database name
  default one by one (\<open>localhost\<close>, \<open>3306\<close>, \<open>blog_db\<close> resp. \<open>company_db\<close>) and are used
  as given when set. The connection string is built from these five values.
\<close>

theorem initDB_defaults:
  fixes env :: environ
  defines "g \<equiv> gorm_initDB_params env" and "s \<equiv> sqlx_initDB_params env"
  shows "(Getenv env ''DB_USER'' \<noteq> [] \<and> Getenv env ''DB_PASS'' \<noteq> [] \<longrightarrow>
            cfg_user g = Getenv env ''DB_USER'' \<and> cfg_pass g = Getenv env ''DB_PASS''
          \<and> cfg_user s = Getenv env ''DB_USER'' \<and> cfg_pass s = Getenv env ''DB_PASS'')
       \<and> (Getenv env ''DB_USER'' = [] \<or> Getenv env ''DB_PASS'' = [] \<longrightarrow>
            cfg_user g = ''root'' \<and> cfg_pass g = ''password''
          \<and> cfg_user s = ''root'' \<and> cfg_pass s = ''password'')
       \<and> cfg_host g = (if Getenv env ''DB_HOST'' = [] then ''localhost'' else Getenv env ''DB_HOST'')
       \<and> cfg_host s = cfg_host g
       \<and> cfg_port g = (if Getenv env ''DB_PORT'' = [] then ''3306'' else Getenv env ''DB_PORT'')
       \<and> cfg_port s = cfg_port g
       \<and> cfg_name g = (if Getenv env ''DB_NAME'' = [] then ''blog_db'' else Getenv env ''DB_NAME'')
       \<and> cfg_name s = (if Getenv env ''DB_NAME'' = [] then ''company_db'' else Getenv env ''DB_NAME'')
       \<and> gorm_initDB_dsn env =
           cfg_user g @ '':'' @ cfg_pass g @ ''@tcp('' @ cfg_host g @ '':'' @ cfg_port g @ '')/''
           @ cfg_name g @ ''?charset=utf8mb4&parseTime=True&loc=Local''
       \<and> sqlx_initDB_dsn env =
           cfg_user s @ '':'' @ cfg_pass s @ ''@tcp('' @ cfg_host s @ '':'' @ cfg_port s @ '')/''
           @ cfg_name s @ ''?parseTime=true''"
  unfolding g_def s_def
  by (simp add: gorm_initDB_params_def sqlx_initDB_params_def gorm_initDB_dsn_def
      sqlx_initDB_dsn_def Let_def)

theorem initDB_defaults_witness:
  "Getenv env_all_set ''DB_USER'' \<noteq> [] \<and> Getenv env_all_set ''DB_PASS'' \<noteq> []
   \<and> gorm_initDB_dsn env_all_set =
       ''alice:s3cret@tcp(db.local:3307)/prod?charset=utf8mb4&parseTime=True&loc=Local''
   \<and> sqlx_initDB_dsn env_all_set = ''alice:s3cret@tcp(db.local:3307)/prod?parseTime=true''
   \<and> Getenv Map.empty ''DB_USER'' = []
   \<and> gorm_initDB_dsn Map.empty =
       ''root:password@tcp(localhost:3306)/blog_db?charset=utf8mb4&parseTime=True&loc=Local''
   \<and> sqlx_initDB_dsn Map.empty = ''root:password@tcp(localhost:3306)/company_db?parseTime=true''"
  using initDB_defaults [of env_all_set] initDB_defaults [of Map.empty]
  by (simp add: Getenv_def env_all_set_def)

text \<open>
  Claim C9 as stated fails: with \<open>DB_USER\<close> set to \<open>alice\<close> and \<open>DB_PASS\<close> unset, the user
  that was set is not used; the connection string names \<open>root\<close>.
\<close>

theorem initDB_set_user_replaced:
  "Getenv env_user_only ''DB_USER'' = ''alice''
   \<and> cfg_user (gorm_initDB_params env_user_only) = ''root''
   \<and> cfg_user (sqlx_initDB_params env_user_only) = ''root''
   \<and> gorm_initDB_dsn env_user_only =
       ''root:password@tcp(localhost:3306)/blog_db?charset=utf8mb4&parseTime=True&loc=Local''
   \<and> sqlx_initDB_dsn env_user_only =
       ''root:password@tcp(localhost:3306)/company_db?parseTime=true''"
  by (simp add: Getenv_def env_user_only_def gorm_initDB_params_def sqlx_initDB_params_def
      gorm_initDB_dsn_def sqlx_initDB_dsn_def)


section \<open>Properties of the ORM program\<close>

subsection \<open>Unfolding the model, and what each call does\<close>

lemmas gorm_defs =
  Create_Post_def Create_Comment_def Delete_Comment_def Delete_Post_def Delete_User_def
  Transaction_def INSERT_INTO_posts_def INSERT_INTO_comments_def DELETE_FROM_comments_def
  DELETE_FROM_posts_def DELETE_FROM_users_def AfterCreate_def AfterDelete_def
  UPDATE_users_article_count_def UPDATE_posts_comment_status_def SELECT_count_comments_def
  next_id_def MaxInt64_def Create_User_def INSERT_INTO_users_def

lemmas example_defs =
  blog_def healthy_def zhangsan_def lisi_def post_a_def post_b_def post_orphan_def
  comment_a_def comment_b_def new_comment_def blog_posted_def blog_commented_def wangwu_def

lemma HasComments_neq_NoComments: "HasComments \<noteq> NoComments"
  by (simp add: HasComments_def NoComments_def)

lemma INSERT_INTO_posts_Inr:
  assumes "INSERT_INTO_posts p db = Inr (p', tx)"
  shows "Post.UserID p' = Post.UserID p \<and> table_users tx = table_users db
         \<and> table_comments tx = table_comments db \<and> backend_err tx = backend_err db
         \<and> Post.UserID p \<in> set (map User.ID (table_users db))
         \<and> (\<exists>row. table_posts tx = table_posts db @ [row] \<and> Post.UserID row = Post.UserID p
                \<and> Post.ID row = Post.ID p')"
  using assms
  by (auto simp: INSERT_INTO_posts_def Let_def split: option.splits if_splits)

lemma AfterCreate_Inr:
  assumes "AfterCreate p tx = Inr tx'"
  shows "tx' = tx\<lparr>table_users :=
            map (\<lambda>u. if User.ID u = Post.UserID p then u\<lparr>ArticleCount := ArticleCount u + 1\<rparr> else u)
              (table_users tx)\<rparr>"
  using assms
  by (auto simp: AfterCreate_def UPDATE_users_article_count_def split: option.splits if_splits sum.splits)

lemma Transaction_cases:
  "Transaction body db = (Some err, db') \<Longrightarrow> db' = db"
  "Transaction body db = (None, db') \<Longrightarrow> body db = Inr db'"
  by (auto simp: Transaction_def split: sum.splits)

lemma Create_Post_committed:
  assumes "Create_Post db p = (None, db')"
  shows "\<exists>row. table_posts db' = table_posts db @ [row] \<and> Post.UserID row = Post.UserID p"
    and "table_users db' =
           map (\<lambda>u. if User.ID u = Post.UserID p then u\<lparr>ArticleCount := ArticleCount u + 1\<rparr> else u)
             (table_users db)"
    and "table_comments db' = table_comments db"
    and "Post.UserID p \<in> set (map User.ID (table_users db))"
proof -
  from assms obtain p' tx where ins: "INSERT_INTO_posts p db = Inr (p', tx)"
    and hook: "AfterCreate p' tx = Inr db'"
    by (auto simp: Create_Post_def Transaction_def split: sum.splits prod.splits)
  note i = INSERT_INTO_posts_Inr [OF ins] and h = AfterCreate_Inr [OF hook]
  show "Post.UserID p \<in> set (map User.ID (table_users db))"
    using i by simp
  show "\<exists>row. table_posts db' = table_posts db @ [row] \<and> Post.UserID row = Post.UserID p"
    using i h by auto
  show "table_users db' =
           map (\<lambda>u. if User.ID u = Post.UserID p then u\<lparr>ArticleCount := ArticleCount u + 1\<rparr> else u)
             (table_users db)"
    using i h by simp
  show "table_comments db' = table_comments db"
    using i h by simp
qed

lemma fold_max_upper:
  "(a::nat) \<le> fold max ids a \<and> (\<forall>x \<in> set ids. x \<le> fold max ids a)"
proof (induction ids arbitrary: a)
  case Nil
  then show ?case by simp
next
  case (Cons i ids)
  have top: "max i a \<le> fold max ids (max i a)"
    and rest: "\<forall>x \<in> set ids. x \<le> fold max ids (max i a)"
    using Cons.IH [of "max i a"] by simp_all
  have "a \<le> fold max ids (max i a)" and "i \<le> fold max ids (max i a)"
    using top by (meson max.cobounded1 max.cobounded2 order_trans)+
  with rest show ?case by simp
qed

lemma next_id_fresh: "next_id ids \<notin> set ids"
  unfolding next_id_def using fold_max_upper [of 0 ids] by (metis Suc_n_not_le_n)

lemma Delete_Comment_committed:
  assumes "Delete_Comment db c = (None, db')"
  shows "table_comments db' = filter (\<lambda>x. Comment.ID x \<noteq> Comment.ID c) (table_comments db)"
    and "table_posts db' =
           map (\<lambda>p. if Post.ID p = PostID c
                     then p\<lparr>CommentStatus :=
                            (if count_comments db' (PostID c) = 0 then NoComments else HasComments)\<rparr>
                     else p)
             (table_posts db)"
    and "table_users db' = table_users db"
  using assms
  by (auto simp: Delete_Comment_def Transaction_def DELETE_FROM_comments_def AfterDelete_def
      SELECT_count_comments_def UPDATE_posts_comment_status_def count_comments_def Let_def
      split: if_splits option.splits sum.splits)

lemma count_comments_pos:
  "(count_comments db pid > 0) = (\<exists>x \<in> set (table_comments db). PostID x = pid)"
  by (auto simp: count_comments_def filter_empty_conv)

lemma Delete_Comment_status_ok:
  assumes "Delete_Comment db c = (None, db')"
  shows "comment_status_ok db' (PostID c)"
proof -
  have "0 \<le> count_comments db' (PostID c)" by (simp add: count_comments_def)
  then show ?thesis
    unfolding comment_status_ok_def
    by (subst Delete_Comment_committed(2) [OF assms]) auto
qed

lemma Delete_Comments_status_ok:
  assumes "\<forall>c \<in> set cs. PostID c = pid"
  shows "\<forall>r \<in> set (Delete_Comments db cs). fst r = None \<longrightarrow> comment_status_ok (snd r) pid"
  using assms
proof (induction cs arbitrary: db)
  case Nil
  then show ?case by simp
next
  case (Cons c cs)
  have first: "fst (Delete_Comment db c) = None \<longrightarrow> comment_status_ok (snd (Delete_Comment db c)) pid"
    using Delete_Comment_status_ok [of db c "snd (Delete_Comment db c)"] Cons.prems
    by (cases "Delete_Comment db c") auto
  have rest: "\<forall>r \<in> set (Delete_Comments (snd (Delete_Comment db c)) cs).
                 fst r = None \<longrightarrow> comment_status_ok (snd r) pid"
    using Cons.IH Cons.prems by simp
  from first rest show ?case by (simp add: Let_def)
qed

lemma Create_Comment_committed:
  assumes "Create_Comment db c = (None, db')"
  shows "table_posts db' = table_posts db" and "table_users db' = table_users db"
    and "\<exists>row. table_comments db' = table_comments db @ [row] \<and> PostID row = PostID c"
  using assms
  by (auto simp: Create_Comment_def Transaction_def INSERT_INTO_comments_def Let_def
      split: option.splits if_splits)

lemma Create_Post_keeps_article_count_ok:
  assumes "article_count_ok db"
  shows "article_count_ok (snd (Create_Post db p))"
proof (cases "Create_Post db p")
  case (Pair e db')
  show ?thesis
  proof (cases e)
    case (Some err)
    with Pair have "db' = db"
      by (simp add: Create_Post_def Transaction_cases(1))
    with Pair assms show ?thesis by simp
  next
    case None
    note c = Create_Post_committed [OF Pair [unfolded None]]
    from c(1) obtain row where row: "table_posts db' = table_posts db @ [row]"
      "Post.UserID row = Post.UserID p" by blast
    have cnt: "count_posts db' uid = count_posts db uid + (if Post.UserID p = uid then 1 else 0)"
      for uid
      using row by (simp add: count_posts_def)
    have "ArticleCount u' = count_posts db' (User.ID u')" if "u' \<in> set (table_users db')" for u'
    proof -
      from that c(2) obtain u where u: "u \<in> set (table_users db)"
        and u': "u' = (if User.ID u = Post.UserID p then u\<lparr>ArticleCount := ArticleCount u + 1\<rparr> else u)"
        by auto
      from assms u have "ArticleCount u = count_posts db (User.ID u)"
        by (simp add: article_count_ok_def)
      then show ?thesis using u' cnt [of "User.ID u"] by (auto split: if_splits)
    qed
    then show ?thesis using Pair by (simp add: article_count_ok_def)
  qed
qed

lemma Create_Comment_keeps_article_count_ok:
  assumes "article_count_ok db"
  shows "article_count_ok (snd (Create_Comment db c))"
proof -
  have "table_users (snd (Create_Comment db c)) = table_users db"
    and "table_posts (snd (Create_Comment db c)) = table_posts db"
    by (simp_all add: Create_Comment_def Transaction_def INSERT_INTO_comments_def Let_def
        split: option.splits)
  with assms show ?thesis by (simp add: article_count_ok_def count_posts_def)
qed

lemma Delete_Comment_keeps_article_count_ok:
  assumes "article_count_ok db"
  shows "article_count_ok (snd (Delete_Comment db c))"
proof (cases "Delete_Comment db c")
  case (Pair e db')
  show ?thesis
  proof (cases e)
    case (Some err)
    with Pair have "db' = db"
      by (simp add: Delete_Comment_def Transaction_cases(1))
    with Pair assms show ?thesis by simp
  next
    case None
    note c = Delete_Comment_committed [OF Pair [unfolded None]]
    have "map Post.UserID (table_posts db') = map Post.UserID (table_posts db)"
      by (subst c(2)) (simp add: comp_def if_distrib cong: if_cong)
    then have "length (filter (\<lambda>p. Post.UserID p = uid) (table_posts db'))
             = length (filter (\<lambda>p. Post.UserID p = uid) (table_posts db))" for uid
      by (metis (mono_tags, lifting) filter_map length_map comp_def filter_cong)
    then have "count_posts db' uid = count_posts db uid" for uid
      by (simp add: count_posts_def)
    with c(3) assms Pair show ?thesis by (simp add: article_count_ok_def)
  qed
qed

lemma Delete_User_keeps_article_count_ok:
  assumes "article_count_ok db"
  shows "article_count_ok (snd (Delete_User db u))"
proof -
  have "set (table_users (snd (Delete_User db u))) \<subseteq> set (table_users db)"
    and "table_posts (snd (Delete_User db u)) = table_posts db"
    by (auto simp: Delete_User_def Transaction_def DELETE_FROM_users_def split: option.splits)
  with assms show ?thesis by (auto simp: article_count_ok_def count_posts_def)
qed

lemma posts_have_usersD:
  assumes "posts_have_users db" and "p \<in> set (table_posts db)"
  shows "\<exists>u \<in> set (table_users db). User.ID u = Post.UserID p"
proof -
  from assms have "Post.UserID p \<in> set (map User.ID (table_users db))"
    unfolding posts_have_users_def by blast
  then show ?thesis by (simp add: image_iff) metis
qed

lemma posts_have_usersI:
  assumes "\<And>p. p \<in> set (table_posts db) \<Longrightarrow> \<exists>u \<in> set (table_users db). User.ID u = Post.UserID p"
  shows "posts_have_users db"
  unfolding posts_have_users_def
proof
  fix p assume "p \<in> set (table_posts db)"
  then obtain u where "u \<in> set (table_users db)" "User.ID u = Post.UserID p"
    using assms by blast
  then show "Post.UserID p \<in> set (map User.ID (table_users db))"
    by (simp add: image_iff) metis
qed

lemma Create_User_committed:
  assumes "Create_User db u = (None, db')"
  shows "\<exists>row. table_users db' = table_users db @ [row]
           \<and> User.ID row \<notin> set (map User.ID (table_users db))
           \<and> ArticleCount row = ArticleCount u"
    and "table_posts db' = table_posts db"
    and "table_comments db' = table_comments db"
  using assms
  by (auto simp: Create_User_def Transaction_def INSERT_INTO_users_def Let_def
      split: option.splits if_splits)

lemma Create_User_keeps_article_count_ok:
  assumes "article_count_ok db" and "posts_have_users db" and "ArticleCount u = 0"
  shows "article_count_ok (snd (Create_User db u))"
proof (cases "Create_User db u")
  case (Pair e db')
  show ?thesis
  proof (cases e)
    case (Some err)
    with Pair have "db' = db"
      by (simp add: Create_User_def Transaction_cases(1))
    with Pair assms show ?thesis by simp
  next
    case None
    note c = Create_User_committed [OF Pair [unfolded None]]
    from c(1) obtain row where row: "table_users db' = table_users db @ [row]"
      "User.ID row \<notin> set (map User.ID (table_users db))" "ArticleCount row = ArticleCount u"
      by blast
    have "Post.UserID x \<noteq> User.ID row" if "x \<in> set (table_posts db)" for x
    proof
      assume "Post.UserID x = User.ID row"
      with posts_have_usersD [OF assms(2) that]
      obtain u' where "u' \<in> set (table_users db)" "User.ID u' = User.ID row" by auto
      with row(2) show False by (simp add: image_iff) metis
    qed
    then have "filter (\<lambda>p. Post.UserID p = User.ID row) (table_posts db) = []"
      by (simp add: filter_empty_conv)
    then have "count_posts db' (User.ID row) = 0"
      using c(2) by (simp add: count_posts_def)
    moreover have "count_posts db' uid = count_posts db uid" for uid
      using c(2) by (simp add: count_posts_def)
    ultimately show ?thesis
      using assms(1,3) row Pair by (auto simp: article_count_ok_def)
  qed
qed

lemma Create_User_keeps_posts_have_users:
  assumes "posts_have_users db"
  shows "posts_have_users (snd (Create_User db u))"
proof (cases "Create_User db u")
  case (Pair e db')
  show ?thesis
  proof (cases e)
    case (Some err)
    with Pair have "db' = db"
      by (simp add: Create_User_def Transaction_cases(1))
    with Pair assms show ?thesis by simp
  next
    case None
    note c = Create_User_committed [OF Pair [unfolded None]]
    have "posts_have_users db'"
    proof (rule posts_have_usersI)
      fix p assume "p \<in> set (table_posts db')"
      with c(2) have "p \<in> set (table_posts db)" by simp
      from posts_have_usersD [OF assms this] c(1)
      show "\<exists>u \<in> set (table_users db'). User.ID u = Post.UserID p" by auto
    qed
    with Pair show ?thesis by simp
  qed
qed

lemma Create_Post_keeps_posts_have_users:
  assumes "posts_have_users db"
  shows "posts_have_users (snd (Create_Post db p))"
proof (cases "Create_Post db p")
  case (Pair e db')
  show ?thesis
  proof (cases e)
    case (Some err)
    with Pair have "db' = db"
      by (simp add: Create_Post_def Transaction_cases(1))
    with Pair assms show ?thesis by simp
  next
    case None
    note c = Create_Post_committed [OF Pair [unfolded None]]
    have ids: "map User.ID (table_users db') = map User.ID (table_users db)"
      by (subst c(2)) (simp add: comp_def if_distrib cong: if_cong)
    from c(1) obtain row where row: "table_posts db' = table_posts db @ [row]"
      "Post.UserID row = Post.UserID p" by blast
    have "Post.UserID q \<in> set (map User.ID (table_users db'))"
      if "q \<in> set (table_posts db')" for q
    proof (cases "q = row")
      case True
      with row(2) c(4) ids show ?thesis by simp
    next
      case False
      with that row(1) have "q \<in> set (table_posts db)" by simp
      with assms have "Post.UserID q \<in> set (map User.ID (table_users db))"
        unfolding posts_have_users_def by blast
      with ids show ?thesis by simp
    qed
    then have "posts_have_users db'"
      unfolding posts_have_users_def by blast
    with Pair show ?thesis by simp
  qed
qed

lemma Create_Comment_keeps_posts_have_users:
  assumes "posts_have_users db"
  shows "posts_have_users (snd (Create_Comment db c))"
proof -
  have "table_users (snd (Create_Comment db c)) = table_users db"
    and "table_posts (snd (Create_Comment db c)) = table_posts db"
    by (simp_all add: Create_Comment_def Transaction_def INSERT_INTO_comments_def Let_def
        split: option.splits)
  with assms show ?thesis by (simp add: posts_have_users_def)
qed

lemma Delete_Comment_keeps_posts_have_users:
  assumes "posts_have_users db"
  shows "posts_have_users (snd (Delete_Comment db c))"
proof (cases "Delete_Comment db c")
  case (Pair e db')
  show ?thesis
  proof (cases e)
    case (Some err)
    with Pair have "db' = db"
      by (simp add: Delete_Comment_def Transaction_cases(1))
    with Pair assms show ?thesis by simp
  next
    case None
    note c = Delete_Comment_committed [OF Pair [unfolded None]]
    have "map Post.UserID (table_posts db') = map Post.UserID (table_posts db)"
      by (subst c(2)) (simp add: comp_def if_distrib cong: if_cong)
    then have same: "set (map Post.UserID (table_posts db')) = set (map Post.UserID (table_posts db))"
      by simp
    have "Post.UserID q \<in> set (map User.ID (table_users db'))"
      if "q \<in> set (table_posts db')" for q
    proof -
      from that have "Post.UserID q \<in> set (map Post.UserID (table_posts db'))" by simp
      with same have "Post.UserID q \<in> set (map Post.UserID (table_posts db))" by simp
      then obtain q' where "q' \<in> set (table_posts db)" "Post.UserID q' = Post.UserID q"
        by (auto simp: image_iff)
      with assms have "Post.UserID q \<in> set (map User.ID (table_users db))"
        unfolding posts_have_users_def by metis
      with c(3) show ?thesis by simp
    qed
    then have "posts_have_users db'"
      unfolding posts_have_users_def by blast
    with Pair show ?thesis by simp
  qed
qed

lemma Delete_User_keeps_posts_have_users:
  assumes "posts_have_users db"
  shows "posts_have_users (snd (Delete_User db u))"
proof (cases "Delete_User db u")
  case (Pair e db')
  show ?thesis
  proof (cases e)
    case (Some err)
    with Pair have "db' = db"
      by (simp add: Delete_User_def Transaction_cases(1))
    with Pair assms show ?thesis by simp
  next
    case None
    with Pair have body: "DELETE_FROM_users (User.ID u) db = Inr db'"
      by (auto simp: Delete_User_def Transaction_def split: if_splits sum.splits)
    then have posts: "table_posts db' = table_posts db"
      and users: "table_users db' = filter (\<lambda>x. User.ID x \<noteq> User.ID u) (table_users db)"
      and free: "User.ID u \<notin> set (map User.ID (table_users db))
                 \<or> User.ID u \<notin> set (map Post.UserID (table_posts db))"
      by (auto simp: DELETE_FROM_users_def split: option.splits if_splits)
    have "posts_have_users db'"
    proof (rule posts_have_usersI)
      fix p assume "p \<in> set (table_posts db')"
      with posts have p: "p \<in> set (table_posts db)" by simp
      from posts_have_usersD [OF assms p]
      obtain x where x: "x \<in> set (table_users db)" "User.ID x = Post.UserID p" by blast
      have "User.ID x \<noteq> User.ID u"
      proof
        assume eq: "User.ID x = User.ID u"
        with x(1) have "User.ID u \<in> set (map User.ID (table_users db))"
          by (simp add: image_iff) metis
        moreover from eq x(2) p have "User.ID u \<in> set (map Post.UserID (table_posts db))"
          by (simp add: image_iff) metis
        ultimately show False using free by blast
      qed
      with x users show "\<exists>u \<in> set (table_users db'). User.ID u = Post.UserID p" by auto
    qed
    with Pair show ?thesis by simp
  qed
qed

lemma apply_mutation_keeps_consistent:
  assumes "article_count_ok db" and "posts_have_users db"
    and "\<not> is_DeletePost m" and "\<not> sets_ArticleCount m"
  shows "article_count_ok (apply_mutation db m) \<and> posts_have_users (apply_mutation db m)"
  using assms
  by (cases m)
     (simp_all add: Create_Post_keeps_article_count_ok Create_Comment_keeps_article_count_ok
        Delete_Comment_keeps_article_count_ok Delete_User_keeps_article_count_ok
        Create_User_keeps_article_count_ok Create_User_keeps_posts_have_users
        Create_Post_keeps_posts_have_users Create_Comment_keeps_posts_have_users
        Delete_Comment_keeps_posts_have_users Delete_User_keeps_posts_have_users)

lemma run_keeps_consistent:
  assumes "article_count_ok db" and "posts_have_users db"
    and "\<forall>m \<in> set ms. \<not> is_DeletePost m \<and> \<not> sets_ArticleCount m"
  shows "article_count_ok (run db ms) \<and> posts_have_users (run db ms)"
proof -
  have "article_count_ok (foldl apply_mutation db ms) \<and> posts_have_users (foldl apply_mutation db ms)"
    using assms
  proof (induction ms arbitrary: db)
    case Nil
    then show ?case by simp
  next
    case (Cons m ms)
    then have "article_count_ok (apply_mutation db m) \<and> posts_have_users (apply_mutation db m)"
      by (simp add: apply_mutation_keeps_consistent)
    with Cons show ?case by simp
  qed
  then show ?thesis by (simp add: run_def)
qed

lemma committed_creations_count:
  assumes "\<forall>p \<in> set ps. Post.UserID p = uid" and "Create_Posts_committed db ps"
  shows "count_posts (run db (map CreatePost ps)) uid = count_posts db uid + int (length ps)"
  using assms
proof (induction ps arbitrary: db)
  case Nil
  then show ?case by (simp add: run_def)
next
  case (Cons p ps)
  obtain db' where step: "Create_Post db p = (None, db')"
    using Cons.prems(2) by (cases "Create_Post db p") auto
  from Create_Post_committed(1) [OF step] Cons.prems(1)
  have "count_posts db' uid = count_posts db uid + 1"
    by (auto simp: count_posts_def)
  moreover have "count_posts (run db' (map CreatePost ps)) uid = count_posts db' uid + int (length ps)"
    using Cons.IH [of db'] Cons.prems step by simp
  ultimately show ?case using step by (simp add: run_def)
qed

subsection \<open>The hook on comment deletion\<close>

text \<open>
  Claim C1. A committed \<open>db.Delete(&comment)\<close> removes the comment's row and then, in
  \<open>AfterDelete\<close>, counts afresh the comments that still refer to the comment's \<open>PostID\<close> and
  writes \<open>HasComments\<close> into that post's \<open>comment_status\<close> when the count is positive,
  \<open>NoComments\<close> when it is zero. So after each committed deletion, in any sequence of
  deletions of comments of a post, the status of the post is \<open>HasComments\<close> exactly when a
  comment of the post remains and \<open>NoComments\<close> exactly when none does: deleting the last
  comment turns it to \<open>NoComments\<close>, deleting another one leaves it \<open>HasComments\<close>.
\<close>

theorem Delete_Comment_recomputes_status:
  "(Delete_Comment db c = (None, db') \<longrightarrow>
      table_comments db' = filter (\<lambda>x. Comment.ID x \<noteq> Comment.ID c) (table_comments db)
    \<and> table_posts db' =
        map (\<lambda>p. if Post.ID p = PostID c
                  then p\<lparr>CommentStatus :=
                         (if count_comments db' (PostID c) = 0 then NoComments else HasComments)\<rparr>
                  else p)
          (table_posts db)
    \<and> (\<forall>p \<in> set (table_posts db'). Post.ID p = PostID c \<longrightarrow>
          (CommentStatus p = HasComments) = (\<exists>x \<in> set (table_comments db'). PostID x = PostID c)
        \<and> (CommentStatus p = NoComments) = (\<forall>x \<in> set (table_comments db'). PostID x \<noteq> PostID c)))
   \<and> ((\<forall>c \<in> set cs. PostID c = pid) \<longrightarrow>
        (\<forall>r \<in> set (Delete_Comments db cs). fst r = None \<longrightarrow>
           (\<forall>p \<in> set (table_posts (snd r)). Post.ID p = pid \<longrightarrow>
              (CommentStatus p = HasComments) = (\<exists>x \<in> set (table_comments (snd r)). PostID x = pid)
            \<and> (CommentStatus p = NoComments) = (\<forall>x \<in> set (table_comments (snd r)). PostID x \<noteq> pid))))"
proof -
  have iff: "(CommentStatus p = HasComments) = (\<exists>x \<in> set (table_comments d). PostID x = q)
           \<and> (CommentStatus p = NoComments) = (\<forall>x \<in> set (table_comments d). PostID x \<noteq> q)"
    if "comment_status_ok d q" and "p \<in> set (table_posts d)" and "Post.ID p = q" for d q p
    using that HasComments_neq_NoComments count_comments_pos [of d q]
    unfolding comment_status_ok_def by (auto split: if_splits)
  have one: "Delete_Comment db c = (None, db') \<longrightarrow>
      table_comments db' = filter (\<lambda>x. Comment.ID x \<noteq> Comment.ID c) (table_comments db)
    \<and> table_posts db' =
        map (\<lambda>p. if Post.ID p = PostID c
                  then p\<lparr>CommentStatus :=
                         (if count_comments db' (PostID c) = 0 then NoComments else HasComments)\<rparr>
                  else p)
          (table_posts db)
    \<and> (\<forall>p \<in> set (table_posts db'). Post.ID p = PostID c \<longrightarrow>
          (CommentStatus p = HasComments) = (\<exists>x \<in> set (table_comments db'). PostID x = PostID c)
        \<and> (CommentStatus p = NoComments) = (\<forall>x \<in> set (table_comments db'). PostID x \<noteq> PostID c))"
    using Delete_Comment_committed(1,2) [of db c db'] Delete_Comment_status_ok [of db c db'] iff
    by blast
  have many: "(\<forall>c \<in> set cs. PostID c = pid) \<longrightarrow>
        (\<forall>r \<in> set (Delete_Comments db cs). fst r = None \<longrightarrow>
           (\<forall>p \<in> set (table_posts (snd r)). Post.ID p = pid \<longrightarrow>
              (CommentStatus p = HasComments) = (\<exists>x \<in> set (table_comments (snd r)). PostID x = pid)
            \<and> (CommentStatus p = NoComments) = (\<forall>x \<in> set (table_comments (snd r)). PostID x \<noteq> pid)))"
    using Delete_Comments_status_ok [of cs pid db] iff by blast
  from one many show ?thesis by (rule conjI)
qed

text \<open>Two comments on post 1, deleted one after the other: \<open>HasComments\<close> after the
  first deletion, \<open>NoComments\<close> after the second.\<close>

theorem Delete_Comment_recomputes_status_witness:
  "Delete_Comment blog_commented comment_a =
     (None, blog_commented\<lparr>table_comments := [comment_b],
              table_posts := [post_a\<lparr>Post.ID := 1, CommentStatus := HasComments\<rparr>]\<rparr>)
   \<and> map (\<lambda>r. (fst r, map CommentStatus (table_posts (snd r)),
                map Comment.ID (table_comments (snd r))))
       (Delete_Comments blog_commented [comment_a, comment_b])
     = [(None, [HasComments], [2]), (None, [NoComments], [])]"
  using Delete_Comment_recomputes_status
    [of blog_commented comment_a
        "blog_commented\<lparr>table_comments := [comment_b],
              table_posts := [post_a\<lparr>Post.ID := 1, CommentStatus := HasComments\<rparr>]\<rparr>"
        "[comment_a, comment_b]" 1]
  by (simp add: gorm_defs example_defs Let_def)

subsection \<open>The counter of posts\<close>

text \<open>
  Claim C2 (as amended). From a database in which the \<open>article_count\<close> of every user is
  the number of posts whose \<open>UserID\<close> is the user's \<open>ID\<close> (and in which the user of every
  post exists, as the foreign key has it), every sequence of user creations that leave
  \<open>ArticleCount\<close> at zero, post creations, comment creations, comment deletions and user
  deletions (each committed or rolled back) leads to a database where this is so again:
  the counter kept by the hook equals a recount. Post deletions, and user creations that
  set \<open>ArticleCount\<close>, are excluded. In particular, after \<open>N\<close> committed creations of posts
  of one user, that user's \<open>article_count\<close> is the number of posts the user had before
  plus \<open>N\<close>.
\<close>

theorem article_count_matches_recount:
  assumes "article_count_ok db" and "posts_have_users db"
    and "\<forall>m \<in> set ms. \<not> is_DeletePost m \<and> \<not> sets_ArticleCount m"
  shows "article_count_ok (run db ms)
         \<and> (\<forall>u \<in> set (table_users (run db ms)).
               ArticleCount u =
                 int (length (filter (\<lambda>p. Post.UserID p = User.ID u) (table_posts (run db ms)))))
         \<and> ((\<forall>p \<in> set ps. Post.UserID p = uid) \<and> Create_Posts_committed db ps \<longrightarrow>
               (\<forall>u \<in> set (table_users (run db (map CreatePost ps))). User.ID u = uid \<longrightarrow>
                  ArticleCount u = count_posts db uid + int (length ps)))"
proof -
  have ok: "article_count_ok (run db ms)"
    using run_keeps_consistent [OF assms] by simp
  then have recount: "\<forall>u \<in> set (table_users (run db ms)).
      ArticleCount u =
        int (length (filter (\<lambda>p. Post.UserID p = User.ID u) (table_posts (run db ms))))"
    by (simp add: article_count_ok_def count_posts_def)
  have "\<forall>m \<in> set (map CreatePost ps). \<not> is_DeletePost m \<and> \<not> sets_ArticleCount m"
    by auto
  then have "article_count_ok (run db (map CreatePost ps))"
    using run_keeps_consistent [OF assms(1,2)] by blast
  then have n: "(\<forall>p \<in> set ps. Post.UserID p = uid) \<and> Create_Posts_committed db ps \<longrightarrow>
      (\<forall>u \<in> set (table_users (run db (map CreatePost ps))). User.ID u = uid \<longrightarrow>
         ArticleCount u = count_posts db uid + int (length ps))"
    using committed_creations_count [of ps uid db] by (auto simp: article_count_ok_def)
  from ok recount n show ?thesis by blast
qed

text \<open>
  A run of every kind of mutation but a post deletion: a third user is created and gets
  a post, the first user gets two posts, a comment is created and deleted, and the
  second user, who owns nothing, is deleted.
\<close>

theorem article_count_matches_recount_witness:
  "article_count_ok blog \<and> posts_have_users blog
   \<and> list_all (\<lambda>m. \<not> is_DeletePost m \<and> \<not> sets_ArticleCount m)
        [CreateUser wangwu, CreatePost post_a, CreatePost post_b,
         CreatePost (post_b\<lparr>Post.UserID := 3\<rparr>), CreateComment new_comment,
         DeleteComment (new_comment\<lparr>Comment.ID := 1\<rparr>), DeleteUser lisi]
   \<and> map (\<lambda>u. (User.ID u, ArticleCount u))
       (table_users (run blog [CreateUser wangwu, CreatePost post_a, CreatePost post_b,
          CreatePost (post_b\<lparr>Post.UserID := 3\<rparr>), CreateComment new_comment,
          DeleteComment (new_comment\<lparr>Comment.ID := 1\<rparr>), DeleteUser lisi]))
     = [(1, 2), (3, 1)]
   \<and> map Post.UserID
       (table_posts (run blog [CreateUser wangwu, CreatePost post_a, CreatePost post_b,
          CreatePost (post_b\<lparr>Post.UserID := 3\<rparr>), CreateComment new_comment,
          DeleteComment (new_comment\<lparr>Comment.ID := 1\<rparr>), DeleteUser lisi]))
     = [1, 1, 3]
   \<and> map Post.UserID [post_a, post_b] = [1, 1]
   \<and> Create_Posts_committed blog [post_a, post_b]
   \<and> count_posts blog 1 = 0
   \<and> map (\<lambda>u. (User.ID u, ArticleCount u))
        (table_users (run blog (map CreatePost [post_a, post_b]))) = [(1, 2), (2, 0)]"
  using article_count_matches_recount
    [of blog "[CreateUser wangwu, CreatePost post_a, CreatePost post_b,
               CreatePost (post_b\<lparr>Post.UserID := 3\<rparr>), CreateComment new_comment,
               DeleteComment (new_comment\<lparr>Comment.ID := 1\<rparr>), DeleteUser lisi]"
        "[post_a, post_b]" 1]
  by (simp add: run_def gorm_defs example_defs Let_def article_count_ok_def count_posts_def
      posts_have_users_def)

text \<open>
  Claim C2 as stated fails on the two mutations that the amended claim excludes. A post
  deletion has no hook: after creating a post of user 1 and deleting it, user 1 has
  \<open>article_count\<close> 1 and no post. And a user created with \<open>ArticleCount\<close> 5 is stored with
  that counter and has no post.
\<close>

theorem article_count_stale_after_unhooked_mutations:
  "article_count_ok blog
   \<and> Create_Post blog post_a = (None, blog_posted)
   \<and> Delete_Post blog_posted (post_a\<lparr>Post.ID := 1\<rparr>) = (None, blog_posted\<lparr>table_posts := []\<rparr>)
   \<and> map ArticleCount (table_users (run blog [CreatePost post_a, DeletePost (post_a\<lparr>Post.ID := 1\<rparr>)]))
       = [1, 0]
   \<and> table_posts (run blog [CreatePost post_a, DeletePost (post_a\<lparr>Post.ID := 1\<rparr>)]) = []
   \<and> \<not> article_count_ok (run blog [CreatePost post_a, DeletePost (post_a\<lparr>Post.ID := 1\<rparr>)])
   \<and> Create_User blog (wangwu\<lparr>ArticleCount := 5\<rparr>) =
       (None, blog\<lparr>table_users := [zhangsan, lisi, wangwu\<lparr>User.ID := 3, ArticleCount := 5\<rparr>]\<rparr>)
   \<and> \<not> article_count_ok (run blog [CreateUser (wangwu\<lparr>ArticleCount := 5\<rparr>)])"
  by (simp add: run_def gorm_defs example_defs Let_def article_count_ok_def count_posts_def)

text \<open>
  Claim C3. When the update of \<open>article_count\<close> that \<open>AfterCreate\<close> issues fails, the hook
  returns that error, \<open>db.Create\<close> reports it, and the transaction is rolled back: the
  database is the one before the call, without the post and with every counter as it
  was.
\<close>

theorem Create_Post_rolls_back:
  assumes "INSERT_INTO_posts p db = Inr (p', tx)"
    and "UPDATE_users_article_count (Post.UserID p') tx = Inl err"
  shows "AfterCreate p' tx = Inl err \<and> Create_Post db p = (Some err, db)
         \<and> table_posts (snd (Create_Post db p)) = table_posts db
         \<and> table_users (snd (Create_Post db p)) = table_users db"
  using assms by (simp add: Create_Post_def Transaction_def AfterCreate_def)

theorem Create_Post_rolls_back_witness:
  "INSERT_INTO_posts post_a (blog\<lparr>backend_err := users_locked\<rparr>) =
     Inr (post_a\<lparr>Post.ID := 1\<rparr>,
          blog\<lparr>backend_err := users_locked,
               table_posts := [post_a\<lparr>Post.ID := 1, CommentStatus := NoComments\<rparr>]\<rparr>)
   \<and> Create_Post (blog\<lparr>backend_err := users_locked\<rparr>) post_a =
     (Some (ErrorString ''Error 1205: Lock wait timeout exceeded''), blog\<lparr>backend_err := users_locked\<rparr>)
   \<and> table_posts (snd (Create_Post (blog\<lparr>backend_err := users_locked\<rparr>) post_a)) = []"
proof -
  have ins: "INSERT_INTO_posts post_a (blog\<lparr>backend_err := users_locked\<rparr>) =
     Inr (post_a\<lparr>Post.ID := 1\<rparr>,
          blog\<lparr>backend_err := users_locked,
               table_posts := [post_a\<lparr>Post.ID := 1, CommentStatus := NoComments\<rparr>]\<rparr>)"
    by (simp add: gorm_defs example_defs users_locked_def)
  have upd: "UPDATE_users_article_count (Post.UserID (post_a\<lparr>Post.ID := 1\<rparr>))
      (blog\<lparr>backend_err := users_locked,
               table_posts := [post_a\<lparr>Post.ID := 1, CommentStatus := NoComments\<rparr>]\<rparr>)
     = Inl (ErrorString ''Error 1205: Lock wait timeout exceeded'')"
    by (simp add: gorm_defs example_defs users_locked_def)
  show ?thesis
    using Create_Post_rolls_back [OF ins upd] ins by (simp add: blog_def)
qed

text \<open>
  Claim C4. A committed \<open>db.Create(&post)\<close> is the insert of the post followed, in the same
  transaction, by \<open>AfterCreate\<close>, whose result is what is committed; the insert leaves the
  users alone, and the hook adds exactly 1 to the \<open>article_count\<close> of the users whose \<open>ID\<close>
  is the post's \<open>UserID\<close> and leaves every other user as it was.
\<close>

theorem Create_Post_increments_owner:
  assumes "Create_Post db p = (None, db')"
  shows "\<exists>p' tx. INSERT_INTO_posts p db = Inr (p', tx) \<and> AfterCreate p' tx = Inr db'
           \<and> Post.UserID p' = Post.UserID p
           \<and> table_users tx = table_users db
           \<and> table_users db' =
               map (\<lambda>u. if User.ID u = Post.UserID p then u\<lparr>ArticleCount := ArticleCount u + 1\<rparr> else u)
                 (table_users db)"
proof -
  from assms obtain p' tx where ins: "INSERT_INTO_posts p db = Inr (p', tx)"
    and hook: "AfterCreate p' tx = Inr db'"
    by (auto simp: Create_Post_def Transaction_def split: sum.splits prod.splits)
  from INSERT_INTO_posts_Inr [OF ins] have same: "Post.UserID p' = Post.UserID p"
    "table_users tx = table_users db" by simp_all
  from AfterCreate_Inr [OF hook] same
  have "table_users db' =
      map (\<lambda>u. if User.ID u = Post.UserID p then u\<lparr>ArticleCount := ArticleCount u + 1\<rparr> else u)
        (table_users db)" by simp
  with ins hook same show ?thesis by blast
qed

theorem Create_Post_increments_witness:
  "Create_Post blog post_a =
     (None, blog\<lparr>table_users := [zhangsan\<lparr>ArticleCount := 1\<rparr>, lisi],
                 table_posts := [post_a\<lparr>Post.ID := 1, CommentStatus := NoComments\<rparr>]\<rparr>)
   \<and> map ArticleCount (table_users blog) = [0, 0]
   \<and> map ArticleCount (table_users (snd (Create_Post blog post_a))) = [1, 0]"
  using Create_Post_increments_owner
    [of blog post_a
        "blog\<lparr>table_users := [zhangsan\<lparr>ArticleCount := 1\<rparr>, lisi],
              table_posts := [post_a\<lparr>Post.ID := 1, CommentStatus := NoComments\<rparr>]\<rparr>"]
  by (simp add: gorm_defs example_defs)

subsection \<open>Operations without a hook\<close>

text \<open>
  Claim C5 (as amended). A committed comment creation adds one comment to the post and
  leaves every post, and so the \<open>comment_status\<close> of the owning post, as it was: afterwards
  the status agrees with the comments of the post exactly when it was \<open>HasComments\<close>
  already before the creation.
\<close>

theorem Create_Comment_keeps_status:
  assumes "Create_Comment db c = (None, db')"
  shows "table_posts db' = table_posts db
         \<and> count_comments db' (PostID c) = count_comments db (PostID c) + 1
         \<and> comment_status_ok db' (PostID c) =
             (\<forall>p \<in> set (table_posts db). Post.ID p = PostID c \<longrightarrow> CommentStatus p = HasComments)"
proof -
  note c = Create_Comment_committed [OF assms]
  from c(3) have cnt: "count_comments db' (PostID c) = count_comments db (PostID c) + 1"
    by (auto simp: count_comments_def)
  have "0 \<le> count_comments db (PostID c)" by (simp add: count_comments_def)
  with cnt have pos: "count_comments db' (PostID c) > 0" by simp
  show ?thesis using c(1) cnt pos by (simp add: comment_status_ok_def)
qed

theorem Create_Comment_keeps_status_witness:
  "Create_Comment blog_commented (new_comment\<lparr>Comment.ID := 3\<rparr>) =
     (None, blog_commented\<lparr>table_comments := [comment_a, comment_b, new_comment\<lparr>Comment.ID := 3\<rparr>]\<rparr>)
   \<and> count_comments blog_commented 1 = 2
   \<and> map CommentStatus (table_posts blog_commented) = [NoComments]"
  using Create_Comment_keeps_status [of blog_commented "new_comment\<lparr>Comment.ID := 3\<rparr>"
      "blog_commented\<lparr>table_comments := [comment_a, comment_b, new_comment\<lparr>Comment.ID := 3\<rparr>]\<rparr>"]
  by (simp add: gorm_defs example_defs Let_def count_comments_def)

text \<open>
  Claim C5 as stated fails: the first comment created on a new post leaves the post's
  status at \<open>NoComments\<close>, although a comment now refers to the post.
\<close>

theorem Create_Comment_status_stays_NoComments:
  "fst (Create_Comment blog_posted new_comment) = None
   \<and> map PostID (table_comments (snd (Create_Comment blog_posted new_comment))) = [1]
   \<and> map Post.ID (table_posts (snd (Create_Comment blog_posted new_comment))) = [1]
   \<and> map CommentStatus (table_posts (snd (Create_Comment blog_posted new_comment))) = [NoComments]
   \<and> NoComments \<noteq> HasComments
   \<and> \<not> comment_status_ok (snd (Create_Comment blog_posted new_comment)) 1"
  by (simp add: gorm_defs example_defs Let_def count_comments_def comment_status_ok_def
      HasComments_def NoComments_def)

text \<open>
  Claim C6. Creating a comment, deleting a post and deleting a user run no hook: a
  comment creation leaves the tables of users and posts as they were; a post deletion
  leaves the users and the comments as they were, and the posts too but for the deleted
  row; a user deletion leaves the posts and the comments as they were, and the users too
  but for the deleted row. So no \<open>article_count\<close> and no \<open>comment_status\<close> changes.
\<close>

theorem no_hook_operations_frame:
  "table_users (snd (Create_Comment db c)) = table_users db
   \<and> table_posts (snd (Create_Comment db c)) = table_posts db
   \<and> table_users (snd (Delete_Post db p)) = table_users db
   \<and> table_comments (snd (Delete_Post db p)) = table_comments db
   \<and> table_posts (snd (Delete_Post db p)) =
       (if fst (Delete_Post db p) = None
        then filter (\<lambda>x. Post.ID x \<noteq> Post.ID p) (table_posts db) else table_posts db)
   \<and> table_posts (snd (Delete_User db u)) = table_posts db
   \<and> table_comments (snd (Delete_User db u)) = table_comments db
   \<and> table_users (snd (Delete_User db u)) =
       (if fst (Delete_User db u) = None
        then filter (\<lambda>x. User.ID x \<noteq> User.ID u) (table_users db) else table_users db)"
proof -
  have cc: "table_users (snd (Create_Comment db c)) = table_users db
            \<and> table_posts (snd (Create_Comment db c)) = table_posts db"
    by (simp add: Create_Comment_def Transaction_def INSERT_INTO_comments_def Let_def
        split: option.splits)
  have dp: "table_users (snd (Delete_Post db p)) = table_users db
            \<and> table_comments (snd (Delete_Post db p)) = table_comments db
            \<and> table_posts (snd (Delete_Post db p)) =
                (if fst (Delete_Post db p) = None
                 then filter (\<lambda>x. Post.ID x \<noteq> Post.ID p) (table_posts db) else table_posts db)"
    by (simp add: Delete_Post_def Transaction_def DELETE_FROM_posts_def split: option.splits)
  have du: "table_posts (snd (Delete_User db u)) = table_posts db
            \<and> table_comments (snd (Delete_User db u)) = table_comments db
            \<and> table_users (snd (Delete_User db u)) =
                (if fst (Delete_User db u) = None
                 then filter (\<lambda>x. User.ID x \<noteq> User.ID u) (table_users db) else table_users db)"
    by (simp add: Delete_User_def Transaction_def DELETE_FROM_users_def split: option.splits)
  from cc dp du show ?thesis by simp
qed

text \<open>
  On the example: the three calls commit when nothing refers to the deleted row, and a
  post that has comments is not deleted at all.
\<close>

theorem no_hook_operations_frame_witness:
  "Create_Comment blog_posted new_comment =
     (None, blog_posted\<lparr>table_comments := [new_comment\<lparr>Comment.ID := 1\<rparr>]\<rparr>)
   \<and> Delete_Post blog_posted (post_a\<lparr>Post.ID := 1\<rparr>) = (None, blog_posted\<lparr>table_posts := []\<rparr>)
   \<and> Delete_Post blog_commented (post_a\<lparr>Post.ID := 1\<rparr>) = (Some ErrRowIsReferenced, blog_commented)
   \<and> Delete_User blog_posted lisi =
       (None, blog_posted\<lparr>table_users := [zhangsan\<lparr>ArticleCount := 1\<rparr>]\<rparr>)"
  using no_hook_operations_frame [of blog_posted new_comment "post_a\<lparr>Post.ID := 1\<rparr>" lisi]
        no_hook_operations_frame [of blog_commented _ "post_a\<lparr>Post.ID := 1\<rparr>"]
  by (simp add: gorm_defs example_defs Let_def)

text \<open>
  Claim C10 (as amended). When no user has the \<open>ID\<close> that a post names as its \<open>UserID\<close>,
  the update of \<open>AfterCreate\<close> matches no row, so the hook, run on that database, returns
  no error and changes nothing: the counter-maintenance path does not surface the
  dangling reference. But \<open>db.Create\<close> of such a post does not commit: the insert is
  refused (by the foreign key on \<open>posts.user_id\<close>, when nothing else fails first) before
  the hook runs, \<open>db.Create\<close> returns that error, and the database is as it was.
\<close>

theorem Create_Post_dangling_user_rejected:
  assumes "\<forall>u \<in> set (table_users db). User.ID u \<noteq> Post.UserID p"
  shows "(backend_err db UPDATE_users = None \<longrightarrow> AfterCreate p db = Inr db)
         \<and> (\<exists>err. INSERT_INTO_posts p db = Inl err \<and> Create_Post db p = (Some err, db))
         \<and> (backend_err db INSERT_posts = None
              \<and> (Post.ID p = 0 \<or> Post.ID p \<notin> set (map Post.ID (table_posts db))) \<longrightarrow>
              Create_Post db p = (Some ErrNoReferencedRow, db))"
proof -
  have same: "map (\<lambda>u. if User.ID u = Post.UserID p then u\<lparr>ArticleCount := ArticleCount u + 1\<rparr> else u)
                (table_users db) = table_users db"
    using assms by (simp add: map_idI)
  have hook: "backend_err db UPDATE_users = None \<longrightarrow> AfterCreate p db = Inr db"
    using assms same by (simp add: AfterCreate_def UPDATE_users_article_count_def)
  have no_user: "Post.UserID p \<notin> set (map User.ID (table_users db))"
    using assms by auto
  have "\<exists>err. INSERT_INTO_posts p db = Inl err"
  proof (cases "backend_err db INSERT_posts")
    case None
    with no_user show ?thesis by (simp add: INSERT_INTO_posts_def Let_def)
  next
    case (Some e)
    then show ?thesis by (simp add: INSERT_INTO_posts_def)
  qed
  then obtain err where ins: "INSERT_INTO_posts p db = Inl err" ..
  then have create: "Create_Post db p = (Some err, db)"
    by (simp add: Create_Post_def Transaction_def)
  define new_id where
    "new_id = (if Post.ID p = 0 then next_id (map Post.ID (table_posts db)) else Post.ID p)"
  have fk: "Create_Post db p = (Some ErrNoReferencedRow, db)"
    if "backend_err db INSERT_posts = None"
      and "Post.ID p = 0 \<or> Post.ID p \<notin> set (map Post.ID (table_posts db))"
  proof -
    have "new_id \<notin> set (map Post.ID (table_posts db))"
      using that(2) next_id_fresh [of "map Post.ID (table_posts db)"]
      unfolding new_id_def by (auto split: if_splits)
    then have "INSERT_INTO_posts p db = Inl ErrNoReferencedRow"
      using that(1) no_user unfolding new_id_def
      by (simp add: INSERT_INTO_posts_def Let_def)
    then show ?thesis by (simp add: Create_Post_def Transaction_def)
  qed
  from hook ins create fk show ?thesis by blast
qed

theorem Create_Post_dangling_user_rejected_witness:
  "map User.ID (table_users blog) = [1, 2] \<and> Post.UserID post_orphan = 7
   \<and> backend_err blog INSERT_posts = None \<and> backend_err blog UPDATE_users = None
   \<and> Post.ID post_orphan = 0
   \<and> AfterCreate post_orphan blog = Inr blog
   \<and> INSERT_INTO_posts post_orphan blog = Inl ErrNoReferencedRow
   \<and> Create_Post blog post_orphan = (Some ErrNoReferencedRow, blog)"
  using Create_Post_dangling_user_rejected [of blog post_orphan]
  by (simp add: gorm_defs example_defs)

text \<open>
  Claim C10 as stated fails: on the example database, where no user has \<open>ID\<close> 7, the
  creation of a post of user 7 returns the foreign key's error and stores no post.
\<close>

theorem Create_Post_dangling_user_not_committed:
  "map User.ID (table_users blog) = [1, 2] \<and> Post.UserID post_orphan = 7
   \<and> fst (Create_Post blog post_orphan) = Some ErrNoReferencedRow
   \<and> fst (Create_Post blog post_orphan) \<noteq> None
   \<and> table_posts (snd (Create_Post blog post_orphan)) = []"
  by (simp add: gorm_defs example_defs)

end
